theory Spec2Isabelle
  imports Complex_Main "HOL-Library.Multiset"
begin

section \<open>The metrics dashboard component (frontend/components/dashboard\_metrics.tsx)\<close>

text \<open>
  The component fetches one JSON document and renders it as cards. The embedding has
  three layers, in the order of the source file: the payload (interface
  \<open>DashboardMetrics\<close>), the card component \<open>MetricCard\<close>, and the component
  \<open>DashboardMetrics\<close> itself: its three state variables, the asynchronous function
  \<open>fetchMetrics\<close> of its effect, and the element tree it returns.
\<close>

subsection \<open>Numbers and decoded JSON values\<close>

text \<open>
  The numbers of a payload come out of \<open>JSON.parse\<close>: finite doubles, never NaN (the
  infinities, which it returns for literals beyond the range of the doubles, are left
  out). The component computes with numbers in two places only: the test
  \<open>avg_time_to_response > 0\<close> and the sign of \<open>b[1] - a[1]\<close> in the sort
  comparator. On finite doubles both agree with the same operations on the rationals
  the doubles denote (a difference of two doubles is zero only when they are equal), so
  a number is modelled as a rational. The conversion of a number to text, which a
  template literal \<open>`${n}%`\<close> performs, is the language's \<open>Number::toString\<close>; the
  component does not define it, and every function below that formats a number takes
  it as the parameter \<open>ToString\<close>.
\<close>

type_synonym number = rat

text \<open>
  The elements \<open>{ week; count }\<close> and \<open>{ month; count }\<close> of the two series; the
  field \<open>count\<close> has the name of its record in front.
\<close>

record WeekCount =
  week :: string
  week_count :: number

record MonthCount =
  month :: string
  month_count :: number

text \<open>
  Interface \<open>DashboardMetrics\<close>. The field \<open>applications_by_status\<close>, a
  \<open>Record<string, number>\<close>, is the list of the object's properties in the order in
  which they were created, that is the order of the members in the JSON text received.
\<close>

record DashboardMetrics =
  total_applications :: number
  interview_rate :: number
  offer_rate :: number
  avg_time_to_response :: number
  applications_last_7_days :: number
  applications_last_30_days :: number
  active_applications :: number
  applications_by_status :: "(string \<times> number) list"
  applications_per_week :: "WeekCount list"
  applications_per_month :: "MonthCount list"

text \<open>
  What \<open>response.json()\<close> resolves to has the static type \<open>any\<close>: null, a boolean, a
  number, a string, an array or an object. The source stores it in a variable of type
  \<open>DashboardMetrics | null\<close> without a check. The component reads
  \<open>applications_by_status\<close> of an object before it returns anything, so the objects
  are of two kinds. \<open>Object_without_status props\<close> is an object that has no property
  \<open>applications_by_status\<close>, with its properties \<open>props\<close> of any type; \<open>{}\<close> is
  \<open>Object_without_status []\<close>. \<open>Object m\<close> is an object that has the property, and
  it is taken to have the shape of the interface, as the source's typing has it.
\<close>

datatype any = Null | Boolean bool | Number number | String string | Array "any list"
  | Object DashboardMetrics | Object_without_status "(string \<times> any) list"

text \<open>JavaScript's \<open>ToBoolean\<close>, as \<open>!metrics\<close> and \<open>error || ...\<close> apply it.\<close>

fun truthy :: "any \<Rightarrow> bool" where
  "truthy Null = False"
| "truthy (Boolean b) = b"
| "truthy (Number n) = (n \<noteq> 0)"
| "truthy (String s) = (s \<noteq> [])"
| "truthy (Array xs) = True"
| "truthy (Object m) = True"
| "truthy (Object_without_status props) = True"

fun truthy_string :: "string option \<Rightarrow> bool" where
  "truthy_string None = False"
| "truthy_string (Some s) = (s \<noteq> [])"

subsection \<open>MetricCard\<close>

datatype color = blue | green | orange | purple | gray

text \<open>The prop \<open>value: string | number\<close>.\<close>

datatype string_or_number = Str string | Num number

record MetricCardProps =
  title :: string
  value_prop :: string_or_number
  subtitle :: "string option"
  color :: "color option"

fun colorClasses :: "color \<Rightarrow> string" where
  "colorClasses blue = ''bg-blue-50 dark:bg-blue-900/20 border-blue-200 dark:border-blue-800''"
| "colorClasses green = ''bg-green-50 dark:bg-green-900/20 border-green-200 dark:border-green-800''"
| "colorClasses orange = ''bg-orange-50 dark:bg-orange-900/20 border-orange-200 dark:border-orange-800''"
| "colorClasses purple = ''bg-purple-50 dark:bg-purple-900/20 border-purple-200 dark:border-purple-800''"
| "colorClasses gray = ''bg-gray-50 dark:bg-gray-900/20 border-gray-200 dark:border-gray-800''"

fun textColorClasses :: "color \<Rightarrow> string" where
  "textColorClasses blue = ''text-blue-600 dark:text-blue-400''"
| "textColorClasses green = ''text-green-600 dark:text-green-400''"
| "textColorClasses orange = ''text-orange-600 dark:text-orange-400''"
| "textColorClasses purple = ''text-purple-600 dark:text-purple-400''"
| "textColorClasses gray = ''text-gray-600 dark:text-gray-400''"

text \<open>
  The card that \<open>MetricCard\<close> returns: the class of the \<open>Card\<close>, the title paragraph,
  the value paragraph with its class, and the subtitle paragraph, which
  \<open>subtitle && <p>...</p>\<close> leaves out when the subtitle is undefined or empty.
\<close>

record card =
  card_className :: string
  title_text :: string
  value_className :: string
  value_shown :: string_or_number
  subtitle_text :: "string option"

definition MetricCard :: "MetricCardProps \<Rightarrow> card" where
  "MetricCard props =
     (let c = (case color props of None \<Rightarrow> blue | Some c' \<Rightarrow> c') in
      \<lparr>card_className = colorClasses c @ '' border-2'',
       title_text = title props,
       value_className = ''text-3xl font-bold '' @ textColorClasses c,
       value_shown = value_prop props,
       subtitle_text = (if truthy_string (subtitle props) then subtitle props else None)\<rparr>)"

subsection \<open>The element tree of the loaded dashboard\<close>

text \<open>The first grid, "Key Metrics": four cards.\<close>

definition key_metrics :: "(number \<Rightarrow> string) \<Rightarrow> DashboardMetrics \<Rightarrow> card list" where
  "key_metrics ToString m =
     [MetricCard \<lparr>title = ''Total Applications'',
                  value_prop = Num (total_applications m),
                  subtitle = None, color = Some blue\<rparr>,
      MetricCard \<lparr>title = ''Interview Rate'',
                  value_prop = Str (ToString (interview_rate m) @ ''%''),
                  subtitle = Some ''% that led to interviews'', color = Some green\<rparr>,
      MetricCard \<lparr>title = ''Offer Rate'',
                  value_prop = Str (ToString (offer_rate m) @ ''%''),
                  subtitle = Some ''% that led to offers'', color = Some purple\<rparr>,
      MetricCard \<lparr>title = ''Active Applications'',
                  value_prop = Num (active_applications m),
                  subtitle = Some ''Still in progress'', color = Some orange\<rparr>]"

text \<open>The second grid, "Time-based Metrics": three cards.\<close>

definition time_metrics :: "(number \<Rightarrow> string) \<Rightarrow> DashboardMetrics \<Rightarrow> card list" where
  "time_metrics ToString m =
     [MetricCard \<lparr>title = ''Last 7 Days'',
                  value_prop = Num (applications_last_7_days m),
                  subtitle = None, color = Some blue\<rparr>,
      MetricCard \<lparr>title = ''Last 30 Days'',
                  value_prop = Num (applications_last_30_days m),
                  subtitle = None, color = Some blue\<rparr>,
      MetricCard \<lparr>title = ''Avg. Time to Response'',
                  value_prop = Str (if avg_time_to_response m > 0
                                    then ToString (avg_time_to_response m) @ '' days''
                                    else ''N/A''),
                  subtitle = Some ''Days until response'', color = Some gray\<rparr>]"

text \<open>
  The third block, "Applications by Status":
  \<^verbatim>\<open>Object.entries(metrics.applications_by_status).sort((a, b) => b[1] - a[1]).map(...)\<close>

  \<open>Object.entries\<close> lists an object's own properties in the order of
  \<open>OrdinaryOwnPropertyKeys\<close>: first the keys that are array indices (the canonical
  decimal text of an integer from 0 to \<open>2^32 - 2\<close>), in ascending numeric order, then
  the other string keys in the order of their creation.
\<close>

definition is_digit :: "char \<Rightarrow> bool" where
  "is_digit c = (48 \<le> (of_char c :: int) \<and> (of_char c :: int) \<le> 57)"

definition decimal_value :: "string \<Rightarrow> int" where
  "decimal_value P = foldl (\<lambda>n c. 10 * n + (of_char c - 48)) 0 P"

definition is_array_index :: "string \<Rightarrow> bool" where
  "is_array_index P =
     (P \<noteq> [] \<and> list_all is_digit P \<and> (P = ''0'' \<or> hd P \<noteq> CHR ''0'')
      \<and> decimal_value P < 2 ^ 32 - 1)"

definition Object_entries :: "(string \<times> 'v) list \<Rightarrow> (string \<times> 'v) list" where
  "Object_entries props =
     sort_key (\<lambda>p. decimal_value (fst p)) (filter (\<lambda>p. is_array_index (fst p)) props)
     @ filter (\<lambda>p. \<not> is_array_index (fst p)) props"

text \<open>
  \<open>Array.prototype.sort\<close> with a comparison function: \<open>a\<close> comes before \<open>b\<close> when
  \<open>comparefn(a, b) < 0\<close>, after it when \<open>comparefn(a, b) > 0\<close>, and the sort is stable
  (ECMAScript 2019), so that for a consistent comparison function, as the one here is,
  the result does not depend on the engine's algorithm. The model is the stable
  insertion sort. The array sorted is the fresh one \<open>Object.entries\<close> returned.
\<close>

fun insert_sorted :: "('a \<Rightarrow> 'a \<Rightarrow> number) \<Rightarrow> 'a \<Rightarrow> 'a list \<Rightarrow> 'a list" where
  "insert_sorted comparefn x [] = [x]"
| "insert_sorted comparefn x (y # ys) =
     (if comparefn x y \<le> 0 then x # y # ys else y # insert_sorted comparefn x ys)"

definition Array_sort :: "('a \<Rightarrow> 'a \<Rightarrow> number) \<Rightarrow> 'a list \<Rightarrow> 'a list" where
  "Array_sort comparefn xs = foldr (insert_sorted comparefn) xs []"

text \<open>One row per entry: the \<open>div\<close> with its key and its two \<open>span\<close>s.\<close>

record status_row =
  row_key :: string
  status_span :: string
  count_span :: number

definition status_breakdown :: "DashboardMetrics \<Rightarrow> status_row list" where
  "status_breakdown m =
     map (\<lambda>(status, count). \<lparr>row_key = status, status_span = status, count_span = count\<rparr>)
       (Array_sort (\<lambda>a b. snd b - snd a) (Object_entries (applications_by_status m)))"

record dashboard =
  key_metrics_grid :: "card list"
  time_metrics_grid :: "card list"
  status_grid :: "status_row list"

definition render_dashboard :: "(number \<Rightarrow> string) \<Rightarrow> DashboardMetrics \<Rightarrow> dashboard" where
  "render_dashboard ToString m =
     \<lparr>key_metrics_grid = key_metrics ToString m,
      time_metrics_grid = time_metrics ToString m,
      status_grid = status_breakdown m\<rparr>"

subsection \<open>The component's state and what it returns\<close>

text \<open>
  The three \<open>useState\<close> variables, with their initial values
  \<open>useState(null)\<close>, \<open>useState(true)\<close>, \<open>useState(null)\<close>.
\<close>

record state =
  metrics :: any
  loading :: bool
  error :: "string option"

definition initial_state :: state where
  "initial_state = \<lparr>metrics = Null, loading = True, error = None\<rparr>"

definition setMetrics :: "any \<Rightarrow> state \<Rightarrow> state" where
  "setMetrics data s = s\<lparr>metrics := data\<rparr>"

definition setLoading :: "bool \<Rightarrow> state \<Rightarrow> state" where
  "setLoading b s = s\<lparr>loading := b\<rparr>"

definition setError :: "string option \<Rightarrow> state \<Rightarrow> state" where
  "setError e s = s\<lparr>error := e\<rparr>"

text \<open>\<open>a || b\<close> on a string that may be null or undefined.\<close>

definition or_else :: "string option \<Rightarrow> string \<Rightarrow> string" where
  "or_else a b = (case a of None \<Rightarrow> b | Some s \<Rightarrow> if s = [] then b else s)"

datatype js_error = Error string | TypeError string | SyntaxError string

datatype element = Spinner | Message string | Dashboard dashboard

text \<open>
  What the component function \<open>DashboardMetrics\<close> returns for a state (the name
  without suffix is the interface's). In the last branch the payload is truthy. When
  it is an object of the interface's shape the dashboard is built from it. When it is a
  boolean, a number, a string, an array or an object without the property,
  \<open>metrics.applications_by_status\<close> is undefined and \<open>Object.entries(undefined)\<close>
  throws a TypeError out of the render; nothing evaluated before it, property reads,
  template literals and a comparison, can throw.
\<close>

definition DashboardMetrics_view :: "(number \<Rightarrow> string) \<Rightarrow> state \<Rightarrow> js_error + element" where
  "DashboardMetrics_view ToString s =
     (if loading s then Inr Spinner
      else if truthy_string (error s) \<or> \<not> truthy (metrics s)
      then Inr (Message (or_else (error s) ''No metrics available''))
      else (case metrics s of
              Object m \<Rightarrow> Inr (Dashboard (render_dashboard ToString m))
            | _ \<Rightarrow> Inl (TypeError ''Cannot convert undefined or null to object'')))"

subsection \<open>The effect: fetchMetrics\<close>

definition apiUrl :: "string option \<Rightarrow> string" where
  "apiUrl NEXT_PUBLIC_API_URL = or_else NEXT_PUBLIC_API_URL ''http://localhost:8000''"

text \<open>
  A call of \<open>fetch\<close>: the URL and the options given. The source gives \<open>method\<close> and
  \<open>credentials\<close>, and no \<open>body\<close>.
\<close>

record fetch_call =
  url :: string
  http_method :: string
  credentials :: string
  body :: "string option"

text \<open>
  How a call of \<open>fetch\<close> ends: the promise is rejected (a network failure), or it
  resolves to a response, of which the source reads \<open>ok\<close> (the status is in
  200..299) and \<open>json()\<close>, which is rejected when the body is not JSON.
\<close>

record response =
  status :: nat
  body_json :: "js_error + any"

definition ok :: "response \<Rightarrow> bool" where
  "ok r = (200 \<le> status r \<and> status r \<le> 299)"

datatype fetch_outcome = Rejected js_error | Resolved response

text \<open>
  A mounted component: its state, the dependency array of the last render
  (\<open>[apiUrl]\<close>; none before the first), the calls of \<open>fetch\<close> made so far, how many of
  them have not ended, and what \<open>console.error\<close> has written.
\<close>

record component =
  hooks :: state
  deps :: "string list option"
  fetched :: "fetch_call list"
  pending :: nat
  console :: "js_error list"

text \<open>
  \<open>fetchMetrics\<close> is an async function. It runs up to the first \<open>await\<close> when the
  effect calls it: \<open>setLoading(true)\<close> and the call of \<open>fetch\<close>.
\<close>

definition fetchMetrics_begin :: "string \<Rightarrow> component \<Rightarrow> component" where
  "fetchMetrics_begin api s =
     s\<lparr>hooks := setLoading True (hooks s),
       fetched := fetched s @
         [\<lparr>url = api @ ''/dashboard-metrics'', http_method = ''GET'',
           credentials = ''include'', body = None\<rparr>],
       pending := pending s + 1\<rparr>"

text \<open>
  The rest of the \<open>try\<close> block, run when the fetch has ended: what is thrown
  (\<open>Inl\<close>), or the state after \<open>setMetrics(data)\<close>. No state is set before a throw.
\<close>

definition try_block :: "fetch_outcome \<Rightarrow> state \<Rightarrow> js_error + state" where
  "try_block outcome s =
     (case outcome of
        Rejected err \<Rightarrow> Inl err
      | Resolved response \<Rightarrow>
          if \<not> ok response then Inl (Error ''Failed to fetch metrics'')
          else (case body_json response of
                  Inl err \<Rightarrow> Inl err
                | Inr data \<Rightarrow> Inr (setMetrics data s)))"

text \<open>
  The \<open>try\<close> block with its \<open>catch\<close> and \<open>finally\<close>. The state setters called in
  one run of the continuation are applied together, in one render.
\<close>

definition fetchMetrics_resume :: "fetch_outcome \<Rightarrow> component \<Rightarrow> component" where
  "fetchMetrics_resume outcome s =
     (let s1 = (case try_block outcome (hooks s) of
                  Inr h \<Rightarrow> s\<lparr>hooks := h\<rparr>
                | Inl err \<Rightarrow>
                    s\<lparr>hooks := setError (Some ''Failed to load metrics'') (hooks s),
                      console := console s @ [err]\<rparr>)
      in s1\<lparr>hooks := setLoading False (hooks s1), pending := pending s1 - 1\<rparr>)"

subsection \<open>The life of a mounted component\<close>

text \<open>
  \<open>useEffect(..., [apiUrl])\<close>: after a render the effect runs when it is the first
  render or when the dependency array differs from that of the render before.
\<close>

definition useEffect :: "string \<Rightarrow> component \<Rightarrow> component" where
  "useEffect api s =
     (if deps s = Some [api] then s else fetchMetrics_begin api (s\<lparr>deps := Some [api]\<rparr>))"

text \<open>
  What happens to a mounted component: it renders again, with the value the
  environment variable has then, or a fetch in flight ends.
\<close>

datatype event = Render "string option" | Settle fetch_outcome

fun step :: "event \<Rightarrow> component \<Rightarrow> component" where
  "step (Render NEXT_PUBLIC_API_URL) s = useEffect (apiUrl NEXT_PUBLIC_API_URL) s"
| "step (Settle outcome) s = (if pending s = 0 then s else fetchMetrics_resume outcome s)"

definition mount :: "string option \<Rightarrow> component" where
  "mount NEXT_PUBLIC_API_URL =
     step (Render NEXT_PUBLIC_API_URL)
       \<lparr>hooks = initial_state, deps = None, fetched = [], pending = 0, console = []\<rparr>"

definition run :: "string option \<Rightarrow> event list \<Rightarrow> component" where
  "run NEXT_PUBLIC_API_URL events = foldl (\<lambda>s e. step e s) (mount NEXT_PUBLIC_API_URL) events"

subsection \<open>Notions the statements use\<close>

text \<open>What a row of the status list displays: the label and the count.\<close>

definition shown_entries :: "status_row list \<Rightarrow> (string \<times> number) list" where
  "shown_entries rows = map (\<lambda>r. (status_span r, count_span r)) rows"

text \<open>
  The three states of the specification, read off the three variables with the
  component's own tests (\<open>loading\<close>, \<open>error || ...\<close>, \<open>!metrics\<close>): exactly one of
  them is active.
\<close>

definition exactly_one_state :: "state \<Rightarrow> bool" where
  "exactly_one_state s =
     ((loading s \<and> \<not> truthy_string (error s) \<and> \<not> truthy (metrics s))
      \<or> (\<not> loading s \<and> truthy_string (error s) \<and> \<not> truthy (metrics s))
      \<or> (\<not> loading s \<and> \<not> truthy_string (error s) \<and> truthy (metrics s)))"

text \<open>The state in which the component returns the dashboard or throws out of it.\<close>

definition ready :: "state \<Rightarrow> bool" where
  "ready s = (\<not> loading s \<and> \<not> truthy_string (error s) \<and> truthy (metrics s))"

text \<open>A render that finds the base URL \<open>api\<close>; true of the other events.\<close>

fun same_base :: "string \<Rightarrow> event \<Rightarrow> bool" where
  "same_base api (Render NEXT_PUBLIC_API_URL) = (apiUrl NEXT_PUBLIC_API_URL = api)"
| "same_base api (Settle outcome) = True"

text \<open>
  The successive values of the base URL in the life of a component: the one at the
  mount, then each value a later render finds changed.
\<close>

fun base_urls :: "string \<Rightarrow> event list \<Rightarrow> string list" where
  "base_urls api [] = [api]"
| "base_urls api (Render NEXT_PUBLIC_API_URL # events) =
     (if apiUrl NEXT_PUBLIC_API_URL = api then base_urls api events
      else api # base_urls (apiUrl NEXT_PUBLIC_API_URL) events)"
| "base_urls api (Settle outcome # events) = base_urls api events"

definition dashboard_request :: "string \<Rightarrow> fetch_call" where
  "dashboard_request api =
     \<lparr>url = api @ ''/dashboard-metrics'', http_method = ''GET'',
      credentials = ''include'', body = None\<rparr>"

text \<open>
  What holds of a component whose base URL has been \<open>api\<close> in every render: its one
  fetch is in flight and nothing has been set, or it has ended and either the error is
  set and no payload, or no error is set.
\<close>

definition one_fetch_inv :: "string \<Rightarrow> component \<Rightarrow> bool" where
  "one_fetch_inv api s =
     (deps s = Some [api]
      \<and> (if pending s = 1 then hooks s = initial_state
          else pending s = 0 \<and> loading (hooks s) = False
            \<and> (if error (hooks s) = None then True
                else error (hooks s) = Some ''Failed to load metrics''
                  \<and> metrics (hooks s) = Null)))"

subsection \<open>Examples\<close>

text \<open>
  A number-to-text conversion for the examples: it agrees with \<open>Number::toString\<close> on
  the numbers the examples format, 0, 10 and 3.5, and is of no interest elsewhere.
\<close>

definition ToString_example :: "number \<Rightarrow> string" where
  "ToString_example n =
     (if n = 3.5 then ''3.5'' else if n = 10 then ''10'' else if n = 0 then ''0'' else ''?'')"

text \<open>The payload of the specification's examples.\<close>

definition example_metrics :: DashboardMetrics where
  "example_metrics =
     \<lparr>total_applications = 25, interview_rate = 10, offer_rate = 0,
      avg_time_to_response = 3.5, applications_last_7_days = 1,
      applications_last_30_days = 10, active_applications = 10,
      applications_by_status = [(''Applied'', 5), (''Interview'', 12), (''Rejected'', 2)],
      applications_per_week = [\<lparr>week = ''2025-W01'', week_count = 1\<rparr>],
      applications_per_month = [\<lparr>month = ''2025-01'', month_count = 10\<rparr>]\<rparr>"

text \<open>A successful response with a given body, and a response with status 500.\<close>

definition ok_response :: "any \<Rightarrow> fetch_outcome" where
  "ok_response data = Resolved \<lparr>status = 200, body_json = Inr data\<rparr>"

definition error_response :: fetch_outcome where
  "error_response = Resolved \<lparr>status = 500, body_json = Inr Null\<rparr>"

section \<open>Theorems\<close>

lemmas setters = setMetrics_def setLoading_def setError_def

lemmas life = run_def mount_def useEffect_def fetchMetrics_begin_def fetchMetrics_resume_def
  try_block_def ok_def initial_state_def apiUrl_def or_else_def setters

subsection \<open>The status list\<close>

text \<open>
  The comparison function \<open>(a, b) => b[1] - a[1]\<close> orders the entries by the key
  \<open>- count\<close>, so the sort is the library's stable sort by that key.
\<close>

lemma insert_sorted_by_count:
  "insert_sorted (\<lambda>a b. snd b - snd a) x ys = insort_key (\<lambda>p. - snd p) x ys"
  by (induction ys) auto

lemma Array_sort_by_count:
  "Array_sort (\<lambda>a b. snd b - snd a) xs = sort_key (\<lambda>p. - snd p) xs"
  by (induction xs) (simp_all add: Array_sort_def sort_key_def insert_sorted_by_count)

lemma shown_entries_status_breakdown:
  "shown_entries (status_breakdown m) =
     sort_key (\<lambda>p. - snd p) (Object_entries (applications_by_status m))"
  by (simp add: shown_entries_def status_breakdown_def Array_sort_by_count
      comp_def case_prod_unfold)

lemma mset_Object_entries: "mset (Object_entries props) = mset props"
  by (simp add: Object_entries_def)

lemma Object_entries_no_index:
  "list_all (\<lambda>e. \<not> is_array_index (fst e)) props \<Longrightarrow> Object_entries props = props"
  by (simp add: Object_entries_def list_all_iff)

lemma sorted_desc_sort_key:
  "sorted_wrt (\<lambda>a b. snd b \<le> (snd a :: number)) (sort_key (\<lambda>p. - snd p) xs)"
proof -
  have "sorted (map (\<lambda>p. - snd p) (sort_key (\<lambda>p. - snd p) xs))"
    by (rule sorted_sort_key)
  then show ?thesis
    by (simp add: sorted_map)
qed

text \<open>
  C1, as amended. For every payload, the status list of the dashboard the component
  returns shows the entries of \<open>applications_by_status\<close>, each with its label and its
  count as received and none lost or added, sorted by count in descending order. Among
  the entries of one count, those whose label is an array index (the decimal text of an
  integer such as "1" or "20") come first, in ascending numeric order of the label, and
  the others follow in the insertion order of the mapping as received; so entries with
  equal counts keep the insertion order whenever no label is an array index.
\<close>

theorem status_breakdown_sorted_stable:
  "DashboardMetrics_view ToString \<lparr>metrics = Object m, loading = False, error = None\<rparr>
     = Inr (Dashboard (render_dashboard ToString m))
   \<and> sorted_wrt (\<lambda>a b. snd b \<le> snd a)
        (shown_entries (status_grid (render_dashboard ToString m)))
   \<and> mset (shown_entries (status_grid (render_dashboard ToString m)))
       = mset (applications_by_status m)
   \<and> filter (\<lambda>e. snd e = c) (shown_entries (status_grid (render_dashboard ToString m)))
       = sort_key (\<lambda>e. decimal_value (fst e))
           (filter (\<lambda>e. is_array_index (fst e) \<and> snd e = c) (applications_by_status m))
         @ filter (\<lambda>e. \<not> is_array_index (fst e) \<and> snd e = c) (applications_by_status m)
   \<and> (list_all (\<lambda>e. \<not> is_array_index (fst e)) (applications_by_status m)
        \<longrightarrow> filter (\<lambda>e. snd e = c)
              (shown_entries (status_grid (render_dashboard ToString m)))
             = filter (\<lambda>e. snd e = c) (applications_by_status m))
   \<and> map row_key (status_grid (render_dashboard ToString m))
       = map status_span (status_grid (render_dashboard ToString m))"
proof -
  let ?received = "applications_by_status m"
  let ?es = "Object_entries ?received"
  let ?shown = "shown_entries (status_grid (render_dashboard ToString m))"
  have grid: "status_grid (render_dashboard ToString m) = status_breakdown m"
    by (simp add: render_dashboard_def)
  have shown: "?shown = sort_key (\<lambda>p. - snd p) ?es"
    unfolding grid by (rule shown_entries_status_breakdown)
  have view: "DashboardMetrics_view ToString \<lparr>metrics = Object m, loading = False, error = None\<rparr>
     = Inr (Dashboard (render_dashboard ToString m))"
    by (simp add: DashboardMetrics_view_def)
  have ordered: "sorted_wrt (\<lambda>a b. snd b \<le> snd a) ?shown"
    unfolding shown by (rule sorted_desc_sort_key)
  have same: "mset ?shown = mset ?received"
    unfolding shown by (simp add: mset_Object_entries)
  have stable: "filter (\<lambda>e. snd e = c) ?shown = filter (\<lambda>e. snd e = c) ?es"
    unfolding shown using sort_key_stable [of "\<lambda>p. - snd p" "- c" ?es] by simp
  have tied: "filter (\<lambda>e. snd e = c) ?es
      = sort_key (\<lambda>e. decimal_value (fst e))
          (filter (\<lambda>e. is_array_index (fst e) \<and> snd e = c) ?received)
        @ filter (\<lambda>e. \<not> is_array_index (fst e) \<and> snd e = c) ?received"
    by (simp add: Object_entries_def filter_sort)
  have received: "filter (\<lambda>e. snd e = c) ?shown = filter (\<lambda>e. snd e = c) ?received"
    if "list_all (\<lambda>e. \<not> is_array_index (fst e)) ?received"
    using stable Object_entries_no_index [OF that] by simp
  have keys: "map row_key (status_grid (render_dashboard ToString m))
      = map status_span (status_grid (render_dashboard ToString m))"
    unfolding grid by (simp add: status_breakdown_def case_prod_unfold)
  from view ordered same stable [unfolded tied] received keys show ?thesis
    by blast
qed

text \<open>
  The specification's example: \<open>{"Applied": 5, "Interview": 12, "Rejected": 2}\<close> is
  shown as Interview(12), Applied(5), Rejected(2).
\<close>

theorem status_breakdown_sorted_stable_witness:
  "list_all (\<lambda>e. \<not> is_array_index (fst e)) (applications_by_status example_metrics)
   \<and> shown_entries (status_grid (render_dashboard ToString_example example_metrics))
       = [(''Interview'', 12), (''Applied'', 5), (''Rejected'', 2)]
   \<and> filter (\<lambda>e. snd e = 5)
        (shown_entries (status_grid (render_dashboard ToString_example example_metrics)))
       = filter (\<lambda>e. snd e = 5) (applications_by_status example_metrics)"
  using status_breakdown_sorted_stable [of ToString_example example_metrics 5]
  by (simp add: example_metrics_def shown_entries_def render_dashboard_def
      status_breakdown_def Array_sort_def Object_entries_def is_array_index_def is_digit_def
      decimal_value_def)

text \<open>
  The claim as stated fails where labels are array indices: the mapping
  \<open>{"2": 1, "1": 1}\<close>, received in that order, has two entries of equal count, and the
  dashboard the component returns for it shows "1" before "2".
\<close>

theorem tied_index_labels_counterexample:
  "applications_by_status (example_metrics\<lparr>applications_by_status := [(''2'', 1), (''1'', 1)]\<rparr>)
     = [(''2'', 1), (''1'', 1)]
   \<and> DashboardMetrics_view ToString_example
        \<lparr>metrics = Object (example_metrics\<lparr>applications_by_status := [(''2'', 1), (''1'', 1)]\<rparr>),
         loading = False, error = None\<rparr>
     = Inr (Dashboard (render_dashboard ToString_example
              (example_metrics\<lparr>applications_by_status := [(''2'', 1), (''1'', 1)]\<rparr>)))
   \<and> shown_entries (status_grid (render_dashboard ToString_example
        (example_metrics\<lparr>applications_by_status := [(''2'', 1), (''1'', 1)]\<rparr>)))
     = [(''1'', 1), (''2'', 1)]
   \<and> shown_entries (status_grid (render_dashboard ToString_example
        (example_metrics\<lparr>applications_by_status := [(''2'', 1), (''1'', 1)]\<rparr>)))
     \<noteq> applications_by_status
         (example_metrics\<lparr>applications_by_status := [(''2'', 1), (''1'', 1)]\<rparr>)"
  by (simp add: example_metrics_def shown_entries_def render_dashboard_def
      DashboardMetrics_view_def status_breakdown_def Array_sort_def Object_entries_def
      is_array_index_def is_digit_def decimal_value_def)

subsection \<open>The end of a fetch\<close>

lemma resume_failure:
  assumes "try_block outcome (hooks s) = Inl cause"
  shows "hooks (fetchMetrics_resume outcome s)
           = (hooks s)\<lparr>loading := False, error := Some ''Failed to load metrics''\<rparr>"
    and "console (fetchMetrics_resume outcome s) = console s @ [cause]"
  using assms by (simp_all add: fetchMetrics_resume_def setters)

lemma view_error:
  "DashboardMetrics_view ToString (h\<lparr>loading := False, error := Some ''Failed to load metrics''\<rparr>)
     = Inr (Message ''Failed to load metrics'')"
  by (simp add: DashboardMetrics_view_def or_else_def)

text \<open>
  C2. For every fetch that fails, by a network failure (the promise is rejected), by a
  status outside 200..299, or by a body that does not decode, the component sets the
  error to the one message "Failed to load metrics" and ends loading; what it returns
  then is that literal message and not the dashboard with its cards; the cause is
  written to the console and is no part of what is shown.
\<close>

theorem fetch_failure_shows_error:
  assumes "outcome = Rejected cause
           \<or> (outcome = Resolved r \<and> \<not> ok r \<and> cause = Error ''Failed to fetch metrics'')
           \<or> (outcome = Resolved r \<and> ok r \<and> body_json r = Inl cause)"
  shows "hooks (fetchMetrics_resume outcome s)
           = (hooks s)\<lparr>loading := False, error := Some ''Failed to load metrics''\<rparr>
         \<and> DashboardMetrics_view ToString (hooks (fetchMetrics_resume outcome s))
           = Inr (Message ''Failed to load metrics'')
         \<and> DashboardMetrics_view ToString (hooks (fetchMetrics_resume outcome s))
           \<noteq> Inr (Dashboard d)
         \<and> console (fetchMetrics_resume outcome s) = console s @ [cause]"
proof -
  from assms have thrown: "try_block outcome (hooks s) = Inl cause"
    by (auto simp: try_block_def)
  show ?thesis
    by (simp add: resume_failure [OF thrown] view_error)
qed

text \<open>A response with status 500 to the fetch of the mount, whatever its body.\<close>

theorem fetch_failure_shows_error_witness:
  "\<not> ok \<lparr>status = 500, body_json = Inr (Object example_metrics)\<rparr>
   \<and> DashboardMetrics_view ToString_example
        (hooks (run None
           [Settle (Resolved \<lparr>status = 500, body_json = Inr (Object example_metrics)\<rparr>)]))
       = Inr (Message ''Failed to load metrics'')
   \<and> console (run None
        [Settle (Resolved \<lparr>status = 500, body_json = Inr (Object example_metrics)\<rparr>)])
       = [Error ''Failed to fetch metrics'']"
  using fetch_failure_shows_error
    [of "Resolved \<lparr>status = 500, body_json = Inr (Object example_metrics)\<rparr>"
        "Error ''Failed to fetch metrics''"
        "\<lparr>status = 500, body_json = Inr (Object example_metrics)\<rparr>"
        "mount None" ToString_example "render_dashboard ToString_example example_metrics"]
  by (simp add: life DashboardMetrics_view_def)



subsection \<open>The cards\<close>

text \<open>
  C3. For every payload, the dashboard the component returns in the ready state has, as
  the third card of its time-based grid, the card "Avg. Time to Response", which shows
  the text of the value followed by " days" when \<open>avg_time_to_response > 0\<close> and the
  literal "N/A" otherwise (zero or negative). At 0 it shows "N/A"; at 3.5 it shows the
  text of 3.5 followed by " days".
\<close>

theorem avg_time_to_response_card:
  "DashboardMetrics_view ToString \<lparr>metrics = Object m, loading = False, error = None\<rparr>
     = Inr (Dashboard (render_dashboard ToString m))
   \<and> map title_text (time_metrics_grid (render_dashboard ToString m))
     = [''Last 7 Days'', ''Last 30 Days'', ''Avg. Time to Response'']
   \<and> map value_shown (time_metrics_grid (render_dashboard ToString m))
     = [Num (applications_last_7_days m), Num (applications_last_30_days m),
        Str (if 0 < avg_time_to_response m
             then ToString (avg_time_to_response m) @ '' days'' else ''N/A'')]
   \<and> map value_shown
        (time_metrics_grid (render_dashboard ToString (m\<lparr>avg_time_to_response := 0\<rparr>)))
     = [Num (applications_last_7_days m), Num (applications_last_30_days m), Str ''N/A'']
   \<and> map value_shown
        (time_metrics_grid (render_dashboard ToString (m\<lparr>avg_time_to_response := 3.5\<rparr>)))
     = [Num (applications_last_7_days m), Num (applications_last_30_days m),
        Str (ToString 3.5 @ '' days'')]"
  by (simp add: DashboardMetrics_view_def render_dashboard_def time_metrics_def
      MetricCard_def)

lemma view_ready_object:
  "DashboardMetrics_view ToString \<lparr>metrics = Object m, loading = False, error = None\<rparr>
     = Inr (Dashboard (render_dashboard ToString m))"
  by (simp add: DashboardMetrics_view_def)

text \<open>
  C4. For every payload, what the component returns in the ready state (not loading, no
  error, the payload stored) is the dashboard of the payload, whose four headline cards
  show, in this order, \<open>total_applications\<close> as the number it is, the text of
  \<open>interview_rate\<close> followed by "%", the text of \<open>offer_rate\<close> followed by "%", and
  \<open>active_applications\<close> as the number it is.
\<close>

theorem headline_cards_show_inputs:
  "DashboardMetrics_view ToString \<lparr>metrics = Object m, loading = False, error = None\<rparr>
     = Inr (Dashboard (render_dashboard ToString m))
   \<and> map title_text (key_metrics_grid (render_dashboard ToString m))
     = [''Total Applications'', ''Interview Rate'', ''Offer Rate'', ''Active Applications'']
   \<and> map value_shown (key_metrics_grid (render_dashboard ToString m))
     = [Num (total_applications m), Str (ToString (interview_rate m) @ ''%''),
        Str (ToString (offer_rate m) @ ''%''), Num (active_applications m)]"
  by (simp add: view_ready_object render_dashboard_def key_metrics_def MetricCard_def)

subsection \<open>The states of the component\<close>

lemma one_fetch_inv_mount: "one_fetch_inv (apiUrl env) (mount env)"
  by (simp add: one_fetch_inv_def mount_def useEffect_def fetchMetrics_begin_def
      initial_state_def setters)

lemma one_fetch_inv_resume:
  assumes "pending s = 1" and "hooks s = initial_state" and "deps s = Some [api]"
  shows "one_fetch_inv api (fetchMetrics_resume outcome s)"
proof (cases "try_block outcome (hooks s)")
  case (Inl cause)
  with assms show ?thesis
    by (simp add: one_fetch_inv_def fetchMetrics_resume_def initial_state_def setters)
next
  case (Inr h)
  then have "error h = None"
    using assms(2)
    by (auto simp: try_block_def initial_state_def setters
        split: fetch_outcome.splits if_splits sum.splits)
  with Inr assms show ?thesis
    by (simp add: one_fetch_inv_def fetchMetrics_resume_def setters)
qed

lemma one_fetch_inv_step:
  assumes "one_fetch_inv api s" and "same_base api e"
  shows "one_fetch_inv api (step e s)"
proof (cases e)
  case (Render env')
  with assms show ?thesis
    by (simp add: one_fetch_inv_def useEffect_def)
next
  case (Settle outcome)
  show ?thesis
  proof (cases "pending s = 0")
    case True
    with Settle assms show ?thesis by simp
  next
    case False
    with assms(1) have "pending s = 1" and "hooks s = initial_state"
      and "deps s = Some [api]"
      by (auto simp: one_fetch_inv_def split: if_splits)
    then show ?thesis
      using Settle by (simp add: one_fetch_inv_resume)
  qed
qed

lemma one_fetch_inv_foldl:
  "one_fetch_inv api s \<Longrightarrow> list_all (same_base api) events \<Longrightarrow>
     one_fetch_inv api (foldl (\<lambda>s e. step e s) s events)"
  by (induction events arbitrary: s) (simp_all add: one_fetch_inv_step)

text \<open>
  C5, as amended. In every state a component reaches while its base URL stays the one
  of the mount (so that it fetches once), the three variables are in one of three
  forms: loading with no error and no payload; the error "Failed to load metrics" with
  no payload and not loading; or not loading, no error, and the decoded value as the
  payload. Hence at most one of the three states loading, error(message),
  ready(payload) is active: exactly one, except that none is when the decoded value is
  null or another falsy value.
\<close>

theorem one_fetch_states:
  assumes "list_all (same_base (apiUrl env)) events"
  shows "(hooks (run env events) = \<lparr>metrics = Null, loading = True, error = None\<rparr>
          \<or> hooks (run env events)
             = \<lparr>metrics = Null, loading = False, error = Some ''Failed to load metrics''\<rparr>
          \<or> (\<exists>data. hooks (run env events)
                      = \<lparr>metrics = data, loading = False, error = None\<rparr>))
         \<and> (exactly_one_state (hooks (run env events))
            \<or> (\<exists>data. \<not> truthy data
                  \<and> hooks (run env events)
                      = \<lparr>metrics = data, loading = False, error = None\<rparr>))"
proof -
  let ?h = "hooks (run env events)"
  have "one_fetch_inv (apiUrl env) (run env events)"
    unfolding run_def using one_fetch_inv_mount assms by (rule one_fetch_inv_foldl)
  then have "?h = initial_state
      \<or> loading ?h = False \<and> error ?h = Some ''Failed to load metrics'' \<and> metrics ?h = Null
      \<or> loading ?h = False \<and> error ?h = None"
    by (auto simp: one_fetch_inv_def split: if_splits)
  then have forms: "?h = \<lparr>metrics = Null, loading = True, error = None\<rparr>
      \<or> ?h = \<lparr>metrics = Null, loading = False, error = Some ''Failed to load metrics''\<rparr>
      \<or> (\<exists>data. ?h = \<lparr>metrics = data, loading = False, error = None\<rparr>)"
    by (cases ?h) (auto simp: initial_state_def)
  then have "exactly_one_state ?h
      \<or> (\<exists>data. \<not> truthy data \<and> ?h = \<lparr>metrics = data, loading = False, error = None\<rparr>)"
    by (auto simp: exactly_one_state_def)
  with forms show ?thesis by blast
qed

text \<open>A render, a successful response, and a response when no fetch is in flight.\<close>

theorem one_fetch_states_witness:
  "list_all (same_base (apiUrl None))
     [Render None, Settle (ok_response (Object example_metrics)), Settle error_response]
   \<and> hooks (run None
        [Render None, Settle (ok_response (Object example_metrics)), Settle error_response])
      = \<lparr>metrics = Object example_metrics, loading = False, error = None\<rparr>
   \<and> exactly_one_state
       (hooks (run None
          [Render None, Settle (ok_response (Object example_metrics)), Settle error_response]))"
  using one_fetch_states
    [of None "[Render None, Settle (ok_response (Object example_metrics)), Settle error_response]"]
  by (simp add: life ok_response_def error_response_def exactly_one_state_def)

text \<open>
  The claim as stated fails after a successful response whose body is \<open>null\<close>: the
  component is not loading, has no error and has no payload.
\<close>

theorem null_body_no_state_counterexample:
  "hooks (run None [Settle (ok_response Null)])
     = \<lparr>metrics = Null, loading = False, error = None\<rparr>
   \<and> \<not> exactly_one_state (hooks (run None [Settle (ok_response Null)]))"
  by (simp add: life ok_response_def exactly_one_state_def)

text \<open>
  Beyond one fetch the variables are independent: \<open>fetchMetrics\<close> never resets the
  error, so after a failed fetch, a change of the base URL and a successful fetch, the
  error and the payload are both set.
\<close>

lemma base_url_change_keeps_error:
  "hooks (run None [Settle error_response, Render (Some ''http://b''),
                    Settle (ok_response (Object example_metrics))])
     = \<lparr>metrics = Object example_metrics, loading = False,
        error = Some ''Failed to load metrics''\<rparr>"
  by (simp add: life ok_response_def error_response_def)




text \<open>
  C7. When the fetch of the mount succeeds and the body decodes to \<open>null\<close> or another
  falsy value, the component sets no error and logs nothing, and yet it does not return
  the dashboard: it shows "No metrics available", which is not the error message
  "Failed to load metrics". The same holds of any later fetch of a component that has
  no error stored.
\<close>

theorem falsy_body_shows_fallback:
  assumes "ok r" and "body_json r = Inr data" and "\<not> truthy data"
  shows "error (hooks (run env [Settle (Resolved r)])) = None
         \<and> console (run env [Settle (Resolved r)]) = []
         \<and> DashboardMetrics_view ToString (hooks (run env [Settle (Resolved r)]))
           = Inr (Message ''No metrics available'')
         \<and> \<not> ready (hooks (run env [Settle (Resolved r)]))
         \<and> ''No metrics available'' \<noteq> ''Failed to load metrics''
         \<and> (error (hooks s) = None \<longrightarrow>
              error (hooks (fetchMetrics_resume (Resolved r) s)) = None
              \<and> console (fetchMetrics_resume (Resolved r) s) = console s
              \<and> DashboardMetrics_view ToString (hooks (fetchMetrics_resume (Resolved r) s))
                = Inr (Message ''No metrics available''))"
proof -
  have later: "error (hooks (fetchMetrics_resume (Resolved r) s')) = None
      \<and> console (fetchMetrics_resume (Resolved r) s') = console s'
      \<and> DashboardMetrics_view ToString (hooks (fetchMetrics_resume (Resolved r) s'))
        = Inr (Message ''No metrics available'')
      \<and> \<not> ready (hooks (fetchMetrics_resume (Resolved r) s'))"
    if "error (hooks s') = None" for s'
    using assms that
    by (simp add: fetchMetrics_resume_def try_block_def setters ready_def
        DashboardMetrics_view_def or_else_def)
  have at_mount: "error (hooks (mount env)) = None" "console (mount env) = []"
    "pending (mount env) \<noteq> 0"
    by (simp_all add: mount_def useEffect_def fetchMetrics_begin_def initial_state_def setters)
  have first: "run env [Settle (Resolved r)] = fetchMetrics_resume (Resolved r) (mount env)"
    using at_mount(3) by (simp add: run_def)
  from later [OF at_mount(1)] at_mount(2) later [of s] show ?thesis
    unfolding first by simp
qed

text \<open>The bodies \<open>null\<close>, \<open>0\<close>, \<open>false\<close> and the empty string are falsy.\<close>

theorem falsy_body_shows_fallback_witness:
  "ok \<lparr>status = 200, body_json = Inr Null\<rparr> \<and> \<not> truthy Null
   \<and> \<not> truthy (Number 0) \<and> \<not> truthy (Boolean False) \<and> \<not> truthy (String [])
   \<and> error (hooks (run None [Settle (ok_response Null)])) = None
   \<and> DashboardMetrics_view ToString_example (hooks (run None [Settle (ok_response Null)]))
       = Inr (Message ''No metrics available'')"
  using falsy_body_shows_fallback
    [of "\<lparr>status = 200, body_json = Inr Null\<rparr>" Null None ToString_example "mount None"]
  by (simp add: ok_def ok_response_def)

subsection \<open>The requests\<close>

lemma base_urls_head: "\<exists>rest. base_urls api events = api # rest"
  by (induction api events rule: base_urls.induct) simp_all

lemma resume_keeps_effect:
  "deps (fetchMetrics_resume outcome s) = deps s"
  "fetched (fetchMetrics_resume outcome s) = fetched s"
  by (simp_all add: fetchMetrics_resume_def Let_def split: sum.splits)

lemma fetched_foldl:
  "deps s = Some [api] \<Longrightarrow>
     fetched (foldl (\<lambda>s e. step e s) s events)
       = fetched s @ map dashboard_request (tl (base_urls api events))"
proof (induction api events arbitrary: s rule: base_urls.induct)
  case (1 api)
  then show ?case by simp
next
  case (2 api env' events)
  show ?case
  proof (cases "apiUrl env' = api")
    case True
    with 2 show ?thesis by (simp add: useEffect_def)
  next
    case False
    let ?s' = "useEffect (apiUrl env') s"
    from False 2(3) have s': "deps ?s' = Some [apiUrl env']"
      "fetched ?s' = fetched s @ [dashboard_request (apiUrl env')]"
      by (simp_all add: useEffect_def fetchMetrics_begin_def dashboard_request_def)
    obtain rest where rest: "base_urls (apiUrl env') events = apiUrl env' # rest"
      using base_urls_head by blast
    from 2(2) [OF False s'(1)] s'(2) False show ?thesis
      by (simp add: rest)
  qed
next
  case (3 api outcome events)
  then show ?case by (simp add: resume_keeps_effect)
qed

text \<open>
  C8, as amended. At the mount the component calls \<open>fetch\<close> once: a GET of the base
  URL followed by "/dashboard-metrics" and nothing else, with credentials included and
  no body. The base URL is the value of the environment variable when that is set to a
  string that is not empty, and "http://localhost:8000" when it is unset or empty.
  After the mount the component calls \<open>fetch\<close> again exactly when a render finds the
  base URL changed, so that its calls are one for each successive value of the base
  URL.
\<close>

theorem one_request_per_base_url:
  "fetched (mount env) = [dashboard_request (apiUrl env)]
   \<and> dashboard_request api
       = \<lparr>url = api @ ''/dashboard-metrics'', http_method = ''GET'',
          credentials = ''include'', body = None\<rparr>
   \<and> apiUrl None = ''http://localhost:8000''
   \<and> apiUrl (Some v) = (if v = [] then ''http://localhost:8000'' else v)
   \<and> fetched (run env events) = map dashboard_request (base_urls (apiUrl env) events)"
proof -
  have at_mount: "fetched (mount env) = [dashboard_request (apiUrl env)]"
    "deps (mount env) = Some [apiUrl env]"
    by (simp_all add: mount_def useEffect_def fetchMetrics_begin_def dashboard_request_def)
  obtain rest where rest: "base_urls (apiUrl env) events = apiUrl env # rest"
    using base_urls_head by blast
  have "fetched (run env events) = map dashboard_request (base_urls (apiUrl env) events)"
    unfolding run_def
    using fetched_foldl [OF at_mount(2), of events] at_mount(1)
    by (simp add: rest)
  with at_mount(1) show ?thesis
    by (simp add: dashboard_request_def apiUrl_def or_else_def)
qed

text \<open>
  The claim as stated fails where the environment variable is set to the empty string:
  the request goes to the default base URL, not to the value provided.
\<close>

theorem empty_base_url_counterexample:
  "fetched (mount (Some []))
     = [\<lparr>url = ''http://localhost:8000/dashboard-metrics'', http_method = ''GET'',
         credentials = ''include'', body = None\<rparr>]
   \<and> map url (fetched (mount (Some []))) \<noteq> [[] @ ''/dashboard-metrics'']"
  by (simp add: life)

text \<open>
  Two renders with the default base URL, then two with another: two requests.
\<close>

lemma requests_example:
  "map url (fetched (run None [Render None, Settle error_response, Render (Some ''http://b''),
       Render (Some ''http://b''), Settle (ok_response Null)]))
   = [''http://localhost:8000/dashboard-metrics'', ''http://b/dashboard-metrics'']"
  by (simp add: life ok_response_def error_response_def)

subsection \<open>Rendering as a function of the payload\<close>

text \<open>
  C9. What the component returns for a loaded payload is a function of the payload
  alone: after a successful fetch of the object \<open>p\<close>, in a component with no error
  stored, it is the dashboard of \<open>p\<close>, whatever else the component has been through;
  and a second, identical successful fetch leaves the state, and so what is returned,
  the same.
\<close>

theorem render_depends_on_payload_only:
  assumes "ok r" and "body_json r = Inr (Object p)"
    and "\<not> truthy_string (error (hooks s))"
  shows "DashboardMetrics_view ToString (hooks (fetchMetrics_resume (Resolved r) s))
           = Inr (Dashboard (render_dashboard ToString p))
         \<and> hooks (fetchMetrics_resume (Resolved r)
                    (fetchMetrics_begin api (fetchMetrics_resume (Resolved r) s)))
           = hooks (fetchMetrics_resume (Resolved r) s)
         \<and> DashboardMetrics_view ToString
              (hooks (fetchMetrics_resume (Resolved r)
                        (fetchMetrics_begin api (fetchMetrics_resume (Resolved r) s))))
           = Inr (Dashboard (render_dashboard ToString p))"
  using assms
  by (simp add: fetchMetrics_resume_def fetchMetrics_begin_def try_block_def setters
      DashboardMetrics_view_def)

text \<open>One successful fetch, and two of them with a change of the base URL between.\<close>

theorem render_depends_on_payload_only_witness:
  "ok \<lparr>status = 200, body_json = Inr (Object example_metrics)\<rparr>
   \<and> \<not> truthy_string (error (hooks (mount None)))
   \<and> DashboardMetrics_view ToString_example
        (hooks (run None [Settle (ok_response (Object example_metrics))]))
      = Inr (Dashboard (render_dashboard ToString_example example_metrics))
   \<and> DashboardMetrics_view ToString_example
        (hooks (run None [Settle (ok_response (Object example_metrics)),
                          Render (Some ''http://b''),
                          Settle (ok_response (Object example_metrics))]))
      = Inr (Dashboard (render_dashboard ToString_example example_metrics))"
  using render_depends_on_payload_only
    [of "\<lparr>status = 200, body_json = Inr (Object example_metrics)\<rparr>" example_metrics
        "mount None" ToString_example "''http://b''"]
  by (simp add: life ok_response_def DashboardMetrics_view_def)

text \<open>
  C10. What is rendered does not depend on \<open>applications_per_week\<close> and
  \<open>applications_per_month\<close>: two payloads that differ in these two fields only have
  the same dashboard, and a component shows the same for both in every state.
\<close>

theorem unused_series_do_not_show:
  "render_dashboard ToString
      (m\<lparr>applications_per_week := weeks, applications_per_month := months\<rparr>)
     = render_dashboard ToString m
   \<and> DashboardMetrics_view ToString
        (s\<lparr>metrics := Object (m\<lparr>applications_per_week := weeks,
                                 applications_per_month := months\<rparr>)\<rparr>)
     = DashboardMetrics_view ToString (s\<lparr>metrics := Object m\<rparr>)"
  by (simp add: DashboardMetrics_view_def render_dashboard_def key_metrics_def time_metrics_def
      status_breakdown_def)

end
